theory Spec2Isabelle
  imports Complex_Main "HOL-Library.Multiset"
begin

section \<open>JavaScript values used by App.tsx\<close>

text \<open>
  A JavaScript \<open>number\<close> is modelled exactly: a finite value is a rational, and the
  three special values the source can produce or test for (\<open>NaN\<close>, \<open>Infinity\<close>,
  \<open>-Infinity\<close>) are constructors of their own. Rounding of IEEE doubles, overflow to
  infinity and the sign of zero are not modelled: arithmetic on finite values is exact.
  A string is a list of 8-bit characters; white space is ASCII white space.
\<close>

datatype number = Num rat | NaN | Infinity | NegInfinity

datatype error = Error string

fun isNaN :: "number \<Rightarrow> bool" where
  "isNaN NaN = True"
| "isNaN _ = False"

fun num_neg :: "number \<Rightarrow> number" where
  "num_neg (Num a) = Num (- a)"
| "num_neg NaN = NaN"
| "num_neg Infinity = NegInfinity"
| "num_neg NegInfinity = Infinity"

text \<open>\<open>a + b\<close>\<close>

fun num_add :: "number \<Rightarrow> number \<Rightarrow> number" where
  "num_add (Num a) (Num b) = Num (a + b)"
| "num_add NaN _ = NaN"
| "num_add _ NaN = NaN"
| "num_add Infinity NegInfinity = NaN"
| "num_add NegInfinity Infinity = NaN"
| "num_add Infinity _ = Infinity"
| "num_add _ Infinity = Infinity"
| "num_add NegInfinity _ = NegInfinity"
| "num_add _ NegInfinity = NegInfinity"

text \<open>\<open>a - b\<close>\<close>

definition num_sub :: "number \<Rightarrow> number \<Rightarrow> number" where
  "num_sub a b = num_add a (num_neg b)"

text \<open>The sign of a number other than \<open>NaN\<close>: -1, 0 or 1.\<close>

fun num_sgn :: "number \<Rightarrow> rat" where
  "num_sgn (Num a) = sgn a"
| "num_sgn Infinity = 1"
| "num_sgn NegInfinity = - 1"
| "num_sgn NaN = 0"

definition signed_infinity :: "rat \<Rightarrow> number" where
  "signed_infinity s = (if s < 0 then NegInfinity else Infinity)"

text \<open>\<open>a * b\<close>\<close>

definition num_mul :: "number \<Rightarrow> number \<Rightarrow> number" where
  "num_mul a b =
     (if isNaN a \<or> isNaN b then NaN
      else case (a, b) of
        (Num x, Num y) \<Rightarrow> Num (x * y)
      | _ \<Rightarrow> if num_sgn a = 0 \<or> num_sgn b = 0 then NaN
             else signed_infinity (num_sgn a * num_sgn b))"

text \<open>\<open>a / b\<close>; a zero divisor is the positive zero.\<close>

fun num_div :: "number \<Rightarrow> number \<Rightarrow> number" where
  "num_div NaN _ = NaN"
| "num_div _ NaN = NaN"
| "num_div (Num a) (Num b) =
     (if b = 0 then (if a = 0 then NaN else signed_infinity a) else Num (a / b))"
| "num_div (Num a) _ = Num 0"
| "num_div a (Num b) = signed_infinity (num_sgn a * (if b < 0 then - 1 else 1))"
| "num_div _ _ = NaN"

text \<open>\<open>Math.floor(a)\<close>\<close>

fun math_floor :: "number \<Rightarrow> number" where
  "math_floor (Num a) = Num (of_int \<lfloor>a\<rfloor>)"
| "math_floor a = a"

text \<open>Rounding towards zero, as the remainder operator does with its quotient.\<close>

definition trunc :: "rat \<Rightarrow> int" where
  "trunc q = (if q < 0 then - \<lfloor>- q\<rfloor> else \<lfloor>q\<rfloor>)"

text \<open>\<open>a % b\<close>: the result has the sign of the dividend.\<close>

fun num_rem :: "number \<Rightarrow> number \<Rightarrow> number" where
  "num_rem (Num a) (Num b) = (if b = 0 then NaN else Num (a - b * of_int (trunc (a / b))))"
| "num_rem (Num a) Infinity = Num a"
| "num_rem (Num a) NegInfinity = Num a"
| "num_rem _ _ = NaN"

text \<open>\<open>Math.max(a, b)\<close>\<close>

fun math_max :: "number \<Rightarrow> number \<Rightarrow> number" where
  "math_max NaN _ = NaN"
| "math_max _ NaN = NaN"
| "math_max Infinity _ = Infinity"
| "math_max _ Infinity = Infinity"
| "math_max NegInfinity b = b"
| "math_max a NegInfinity = a"
| "math_max (Num a) (Num b) = Num (max a b)"

text \<open>\<open>a > 0\<close>, \<open>a <= 0\<close> and \<open>a >= 0\<close>: every comparison with \<open>NaN\<close> is false.\<close>

fun positive :: "number \<Rightarrow> bool" where
  "positive (Num a) = (0 < a)"
| "positive Infinity = True"
| "positive _ = False"

fun nonpositive :: "number \<Rightarrow> bool" where
  "nonpositive (Num a) = (a \<le> 0)"
| "nonpositive NegInfinity = True"
| "nonpositive _ = False"


text \<open>Truthiness of a number, as \<open>||\<close> tests it: zero and \<open>NaN\<close> are falsy.\<close>

fun truthy :: "number \<Rightarrow> bool" where
  "truthy (Num a) = (a \<noteq> 0)"
| "truthy NaN = False"
| "truthy _ = True"

subsection \<open>Strings\<close>

definition is_space :: "char \<Rightarrow> bool" where
  "is_space c = (c \<in> set [CHR '' '', CHR 0x09, CHR 0x0A, CHR 0x0B, CHR 0x0C, CHR 0x0D])"

definition is_digit :: "char \<Rightarrow> bool" where
  "is_digit c = (48 \<le> (of_char c :: nat) \<and> (of_char c :: nat) \<le> 57)"

definition digit_val :: "char \<Rightarrow> nat" where
  "digit_val c = of_char c - 48"

definition is_hex_digit :: "char \<Rightarrow> bool" where
  "is_hex_digit c = (is_digit c
     \<or> (65 \<le> (of_char c :: nat) \<and> (of_char c :: nat) \<le> 70)
     \<or> (97 \<le> (of_char c :: nat) \<and> (of_char c :: nat) \<le> 102))"

definition hex_digit_val :: "char \<Rightarrow> nat" where
  "hex_digit_val c =
     (if is_digit c then of_char c - 48
      else if (of_char c :: nat) \<le> 70 then of_char c - 55
      else of_char c - 87)"

text \<open>\<open>s.trimStart()\<close> and \<open>s.trim()\<close>\<close>

definition trimStart :: "string \<Rightarrow> string" where
  "trimStart s = dropWhile is_space s"

definition trim :: "string \<Rightarrow> string" where
  "trim s = rev (dropWhile is_space (rev (dropWhile is_space s)))"

text \<open>The value of a string of digits in a radix, most significant digit first.\<close>

definition digits_value :: "nat \<Rightarrow> (char \<Rightarrow> nat) \<Rightarrow> string \<Rightarrow> nat" where
  "digits_value radix val ds = foldl (\<lambda>acc c. radix * acc + val c) 0 ds"

text \<open>Decimal rendering of a natural number, as \<open>String(n)\<close> gives for an integer
  below \<open>10^21\<close>.\<close>

fun show_nat :: "nat \<Rightarrow> string" where
  "show_nat n =
     (if n < 10 then [char_of (48 + n)]
      else show_nat (n div 10) @ [char_of (48 + n mod 10)])"

declare show_nat.simps [simp del]

text \<open>An optional sign at the head of a string: the sign and the rest.\<close>

fun take_sign :: "string \<Rightarrow> bool \<times> string" where
  "take_sign [] = (False, [])"
| "take_sign (c # cs) =
     (if c = CHR ''-'' then (True, cs)
      else if c = CHR ''+'' then (False, cs)
      else (False, c # cs))"

definition apply_sign :: "bool \<Rightarrow> rat \<Rightarrow> number" where
  "apply_sign neg v = Num (if neg then - v else v)"

text \<open>
  \<open>parseInt(s, 10)\<close>: leading white space is skipped, a sign is read, then the longest
  prefix of decimal digits; \<open>NaN\<close> when there is no digit.
\<close>

definition parseInt10 :: "string \<Rightarrow> number" where
  "parseInt10 s =
     (let (neg, r) = take_sign (trimStart s);
          ds = takeWhile is_digit r
      in if ds = [] then NaN else apply_sign neg (of_nat (digits_value 10 digit_val ds)))"

text \<open>\<open>parseInt(s)\<close> with no radix: as above, but a \<open>0x\<close> or \<open>0X\<close> prefix after
  the sign selects radix 16.\<close>

definition has_hex_prefix :: "string \<Rightarrow> bool" where
  "has_hex_prefix r = (take 2 r = ''0x'' \<or> take 2 r = ''0X'')"

definition parseInt :: "string \<Rightarrow> number" where
  "parseInt s =
     (let (neg, r) = take_sign (trimStart s)
      in if has_hex_prefix r
         then (let ds = takeWhile is_hex_digit (drop 2 r)
               in if ds = [] then NaN
                  else apply_sign neg (of_nat (digits_value 16 hex_digit_val ds)))
         else (let ds = takeWhile is_digit r
               in if ds = [] then NaN
                  else apply_sign neg (of_nat (digits_value 10 digit_val ds))))"

text \<open>
  The exponent part of a decimal literal, \<open>[eE][+-]?digits\<close>, at the head of a string:
  the exponent, or 0 when the string does not start with a complete exponent part.
\<close>

definition exponent_part :: "string \<Rightarrow> int" where
  "exponent_part r =
     (case r of
        [] \<Rightarrow> 0
      | c # cs \<Rightarrow>
          if c = CHR ''e'' \<or> c = CHR ''E''
          then (let (neg, r') = take_sign cs;
                    ds = takeWhile is_digit r'
                in if ds = [] then 0
                   else (if neg then - int (digits_value 10 digit_val ds)
                         else int (digits_value 10 digit_val ds)))
          else 0)"

definition scale10 :: "rat \<Rightarrow> int \<Rightarrow> rat" where
  "scale10 v e = (if e < 0 then v / 10 ^ nat (- e) else v * 10 ^ nat e)"

text \<open>
  \<open>parseFloat(s)\<close>: leading white space is skipped, then the longest prefix that is a
  decimal literal (\<open>[+-]?(Infinity | digits[.digits][exp] | .digits[exp])\<close>) is read;
  \<open>NaN\<close> when there is none. Whatever follows the literal is ignored.
\<close>

definition parseFloat :: "string \<Rightarrow> number" where
  "parseFloat s =
     (let (neg, r) = take_sign (trimStart s)
      in if take 8 r = ''Infinity'' then (if neg then NegInfinity else Infinity)
         else
           (let ip = takeWhile is_digit r;
                r1 = dropWhile is_digit r;
                dot = (r1 \<noteq> [] \<and> hd r1 = CHR ''.'');
                fp = (if dot then takeWhile is_digit (tl r1) else []);
                r2 = (if dot then dropWhile is_digit (tl r1) else r1)
            in if ip = [] \<and> fp = [] then NaN
               else apply_sign neg
                      (scale10
                         (of_nat (digits_value 10 digit_val ip)
                            + of_nat (digits_value 10 digit_val fp) / 10 ^ length fp)
                         (exponent_part r2))))"

section \<open>The data model of App.tsx\<close>

text \<open>
  The interfaces \<open>Product\<close>, \<open>CountItem\<close>, \<open>SavedCount\<close> and \<open>FormTemplate\<close>.
  Field names that several interfaces share get the interface as a prefix. An optional
  field (\<open>sortIndex?\<close>) is an \<open>option\<close>: \<open>None\<close> is \<open>undefined\<close>.
\<close>

record Product =
  product_id :: string
  product_name :: string
  product_packagingSize :: number
  sortIndex :: "number option"

record CountItem =
  productId :: string
  productName :: string
  packagingSize :: number
  packageCount :: number
  singleCount :: number

text \<open>
  An item of a saved count as the archive holds it. The load effect reads these objects
  as \<open>any\<close> and tests which fields they have, so every field is optional here; \<open>count\<close>
  is the single total of the older schema.
\<close>

record StoredItem =
  stored_productId :: "string option"
  stored_productName :: "string option"
  stored_packagingSize :: "number option"
  stored_packageCount :: "number option"
  stored_singleCount :: "number option"
  stored_count :: "number option"

record SavedCount =
  saved_id :: string
  formName :: string
  timestamp :: string
  items :: "StoredItem list"

record FormTemplate =
  template_id :: string
  template_name :: string
  products :: "Product list"
  createdAt :: string

datatype View = Start | Import | CreateTemplate | Count | ViewCounts

datatype field = Single | Package

datatype sign = Plus | Minus

fun sign_number :: "sign \<Rightarrow> number" where
  "sign_number Plus = Num 1"
| "sign_number Minus = Num (- 1)"

record DialogProduct =
  dialog_productId :: string
  dialog_field :: field
  dialog_sign :: sign

text \<open>The state of the component: its \<open>useState\<close> variables and its two refs.\<close>

record app_state =
  view :: View
  templates :: "FormTemplate list"
  savedCounts :: "SavedCount list"
  currentForm :: "FormTemplate option"
  currentCounts :: "CountItem list"
  importError :: string
  newTemplateName :: string
  newTemplateProducts :: "Product list"
  selectedTemplateId :: string
  successMessage :: string
  resumeSessionDialogOpen :: bool
  sessionRecovered :: bool
  longPressStart :: "nat option"
  numberDialogOpen :: bool
  numberDialogProduct :: "DialogProduct option"
  numberDialogValue :: string

definition initial_state :: app_state where
  "initial_state =
     \<lparr> view = Start, templates = [], savedCounts = [], currentForm = None,
       currentCounts = [], importError = [], newTemplateName = [],
       newTemplateProducts = [], selectedTemplateId = [], successMessage = [],
       resumeSessionDialogOpen = False, sessionRecovered = False, longPressStart = None,
       numberDialogOpen = False, numberDialogProduct = None, numberDialogValue = [] \<rparr>"

section \<open>Sorting by sort index\<close>

text \<open>
  \<open>Array.prototype.sort(comparefn)\<close>. The comparison the sort uses is \<open>comparefn\<close>'s
  result with \<open>NaN\<close> read as 0; \<open>x\<close> has to come after \<open>y\<close> when it is positive. The
  sort is stable. It is modelled by insertion, left to right, of each element behind
  every element that does not have to come after it. For a comparison function that is
  a consistent ordering this is the one result a stable sort can give; for any other
  the language leaves the order to the implementation.
\<close>

definition sortCompare :: "('a \<Rightarrow> 'a \<Rightarrow> number) \<Rightarrow> 'a \<Rightarrow> 'a \<Rightarrow> number" where
  "sortCompare comparefn x y = (if isNaN (comparefn x y) then Num 0 else comparefn x y)"

fun sort_insert :: "('a \<Rightarrow> 'a \<Rightarrow> number) \<Rightarrow> 'a \<Rightarrow> 'a list \<Rightarrow> 'a list" where
  "sort_insert comparefn x [] = [x]"
| "sort_insert comparefn x (y # ys) =
     (if positive (sortCompare comparefn y x) then x # y # ys
      else y # sort_insert comparefn x ys)"

fun sort_into :: "('a \<Rightarrow> 'a \<Rightarrow> number) \<Rightarrow> 'a list \<Rightarrow> 'a list \<Rightarrow> 'a list" where
  "sort_into comparefn acc [] = acc"
| "sort_into comparefn acc (x # xs) = sort_into comparefn (sort_insert comparefn x acc) xs"

definition array_sort :: "('a \<Rightarrow> 'a \<Rightarrow> number) \<Rightarrow> 'a list \<Rightarrow> 'a list" where
  "array_sort comparefn xs = sort_into comparefn [] xs"

text \<open>\<open>a.sortIndex ?? Infinity\<close>\<close>

definition sortIndexOrInfinity :: "Product \<Rightarrow> number" where
  "sortIndexOrInfinity p = (case sortIndex p of None \<Rightarrow> Infinity | Some n \<Rightarrow> n)"

text \<open>The comparison function of both sorts: \<open>(a, b) => aIndex - bIndex\<close>.\<close>

definition compareSortIndex :: "Product \<Rightarrow> Product \<Rightarrow> number" where
  "compareSortIndex a b = num_sub (sortIndexOrInfinity a) (sortIndexOrInfinity b)"

section \<open>Import: parseCSV\<close>

text \<open>\<open>text.split(/\r?\n/)\<close>\<close>

fun split_lines :: "string \<Rightarrow> string list" where
  "split_lines [] = [[]]"
| "split_lines [c] = (if c = CHR 0x0A then [[], []] else [[c]])"
| "split_lines (c # d # cs) =
     (if c = CHR 0x0A then [] # split_lines (d # cs)
      else if c = CHR 0x0D \<and> d = CHR 0x0A then [] # split_lines cs
      else (case split_lines (d # cs) of
              [] \<Rightarrow> [[c]]
            | l # ls \<Rightarrow> (c # l) # ls))"

text \<open>\<open>.filter(line => line.trim())\<close>: the lines that are not blank.\<close>

definition csv_lines :: "string \<Rightarrow> string list" where
  "csv_lines text = filter (\<lambda>line. trim line \<noteq> []) (split_lines text)"

text \<open>
  The inner loop over the characters of a line: a double quote toggles \<open>inQuotes\<close> and is
  dropped, a comma outside quotes ends the current value, any other character is
  appended to it. The last value is pushed after the loop.
\<close>

fun split_values :: "string \<Rightarrow> string \<Rightarrow> bool \<Rightarrow> string list" where
  "split_values [] current inQuotes = [current]"
| "split_values (c # cs) current inQuotes =
     (if c = CHR 0x22 then split_values cs current (\<not> inQuotes)
      else if c = CHR '','' \<and> \<not> inQuotes then current # split_values cs [] inQuotes
      else split_values cs (current @ [c]) inQuotes)"

text \<open>\<open>v.replace(/^"|"$/g, "")\<close>: a double quote at the start and one at the end go.\<close>

definition strip_quotes :: "string \<Rightarrow> string" where
  "strip_quotes v =
     (let v1 = (if v \<noteq> [] \<and> hd v = CHR 0x22 then tl v else v)
      in if v1 \<noteq> [] \<and> last v1 = CHR 0x22 then butlast v1 else v1)"

definition cleanValues :: "string \<Rightarrow> string list" where
  "cleanValues line = map (\<lambda>v. strip_quotes (trim v)) (split_values line [] False)"

definition invalid_packaging_size :: "nat \<Rightarrow> string \<Rightarrow> error" where
  "invalid_packaging_size i v =
     Error (''Invalid packaging size at row '' @ show_nat (i + 1) @ '': '' @ [CHR 0x22] @ v
              @ [CHR 0x22])"

text \<open>The product a row with at least three values gives.\<close>

definition row_product :: "string list \<Rightarrow> Product" where
  "row_product cv =
     \<lparr> product_id = cv ! 0, product_name = cv ! 1,
       product_packagingSize = parseFloat (cv ! 2),
       sortIndex = (if 3 < length cv \<and> cv ! 3 \<noteq> [] then Some (parseInt (cv ! 3)) else None) \<rparr>"

text \<open>
  The outer loop, from row index \<open>i\<close> on: a row with fewer than three values is
  skipped, a row whose third value does not parse throws, any other row pushes a
  product.
\<close>

fun parse_rows :: "string list \<Rightarrow> nat \<Rightarrow> error + Product list" where
  "parse_rows [] i = Inr []"
| "parse_rows (line # rest) i =
     (let cv = cleanValues line
      in if 3 \<le> length cv
         then (if isNaN (parseFloat (cv ! 2)) then Inl (invalid_packaging_size i (cv ! 2))
               else (case parse_rows rest (i + 1) of
                       Inl e \<Rightarrow> Inl e
                     | Inr ps \<Rightarrow> Inr (row_product cv # ps)))
         else parse_rows rest (i + 1))"

definition parseCSV :: "string \<Rightarrow> error + Product list" where
  "parseCSV text =
     (let lines = csv_lines text
      in if lines = [] then Inr []
         else (case parse_rows lines 0 of
                 Inl e \<Rightarrow> Inl e
               | Inr ps \<Rightarrow> Inr (array_sort compareSortIndex ps)))"

section \<open>Templates\<close>

text \<open>\<open>file.name.replace(/\.[^/.]+$/, "")\<close>: the extension after the last dot goes,
  when it is not empty and has no slash.\<close>

definition strip_extension :: "string \<Rightarrow> string" where
  "strip_extension fname =
     (let ext = takeWhile (\<lambda>c. c \<noteq> CHR ''.'') (rev fname)
      in if length ext < length fname \<and> ext \<noteq> [] \<and> CHR ''/'' \<notin> set ext
         then rev (drop (length ext + 1) (rev fname))
         else fname)"

text \<open>
  \<open>handleFileImport\<close>. The arguments are the chosen file (its name and its text), if
  any, and the clock: \<open>Date.now()\<close> and \<open>new Date().toISOString()\<close>. An exception of
  \<open>parseCSV\<close> is caught and its message shown.
\<close>

definition handleFileImport ::
    "(string \<times> string) option \<Rightarrow> nat \<Rightarrow> string \<Rightarrow> app_state \<Rightarrow> app_state" where
  "handleFileImport file now stamp s =
     (case file of
        None \<Rightarrow> s
      | Some (fname, text) \<Rightarrow>
          (case parseCSV text of
             Inl (Error message) \<Rightarrow> s\<lparr>importError := message\<rparr>
           | Inr ps \<Rightarrow>
               if ps = [] then s\<lparr>importError := ''No valid products found in the CSV file''\<rparr>
               else s\<lparr>templates := templates s @
                          [\<lparr>template_id = show_nat now, template_name = strip_extension fname,
                            products = ps, createdAt = stamp\<rparr>],
                        importError := [],
                        successMessage := ''Successfully imported '' @ show_nat (length ps)
                          @ '' products from '' @ [CHR 0x22] @ fname @ [CHR 0x22]\<rparr>))"

text \<open>
  \<open>addProductToTemplate\<close>. The arguments are the answers to the four prompts
  (\<open>None\<close> when a prompt is cancelled); a prompt after a refused answer is never shown.
\<close>

definition addProductToTemplate ::
    "string option \<Rightarrow> string option \<Rightarrow> string option \<Rightarrow> string option \<Rightarrow> app_state \<Rightarrow> app_state" where
  "addProductToTemplate id_answer name_answer size_answer sort_answer s =
     (case id_answer of None \<Rightarrow> s | Some pid \<Rightarrow> if pid = [] then s else
      (case name_answer of None \<Rightarrow> s | Some pname \<Rightarrow> if pname = [] then s else
       (case size_answer of None \<Rightarrow> s | Some psize \<Rightarrow> if psize = [] then s else
          if isNaN (parseFloat psize) \<or> nonpositive (parseFloat psize) then s
          else s\<lparr>newTemplateProducts := newTemplateProducts s @
                    [\<lparr>product_id = pid, product_name = pname,
                      product_packagingSize = parseFloat psize,
                      sortIndex = (case sort_answer of
                                     None \<Rightarrow> None
                                   | Some t \<Rightarrow> if t = [] then None else Some (parseInt t))\<rparr>]\<rparr>)))"

definition saveTemplate :: "nat \<Rightarrow> string \<Rightarrow> app_state \<Rightarrow> app_state" where
  "saveTemplate now stamp s =
     (if trim (newTemplateName s) = [] then s
      else if newTemplateProducts s = [] then s
      else s\<lparr>templates := templates s @
                 [\<lparr>template_id = show_nat now, template_name = trim (newTemplateName s),
                   products = array_sort compareSortIndex (newTemplateProducts s),
                   createdAt = stamp\<rparr>],
               newTemplateName := [],
               newTemplateProducts := [],
               successMessage := ''Template '' @ [CHR 0x22] @ trim (newTemplateName s)
                 @ [CHR 0x22] @ '' saved successfully'',
               view := Start\<rparr>)"

text \<open>\<open>deleteTemplate\<close> and \<open>deleteSavedCount\<close>; the flag is the answer to \<open>confirm\<close>.\<close>

definition deleteTemplate :: "string \<Rightarrow> bool \<Rightarrow> app_state \<Rightarrow> app_state" where
  "deleteTemplate tid confirmed s =
     (if confirmed then s\<lparr>templates := filter (\<lambda>t. template_id t \<noteq> tid) (templates s)\<rparr>
      else s)"

definition deleteSavedCount :: "string \<Rightarrow> bool \<Rightarrow> app_state \<Rightarrow> app_state" where
  "deleteSavedCount cid confirmed s =
     (if confirmed then s\<lparr>savedCounts := filter (\<lambda>c. saved_id c \<noteq> cid) (savedCounts s)\<rparr>
      else s)"

section \<open>Counting\<close>

definition startCounting :: "app_state \<Rightarrow> app_state" where
  "startCounting s =
     (case find (\<lambda>t. template_id t = selectedTemplateId s) (templates s) of
        None \<Rightarrow> s
      | Some template \<Rightarrow>
          s\<lparr>currentForm := Some template,
            currentCounts :=
              map (\<lambda>p. \<lparr>productId = product_id p, productName = product_name p,
                        packagingSize = product_packagingSize p,
                        packageCount = Num 0, singleCount = Num 0\<rparr>)
                  (products template),
            view := Count\<rparr>)"

definition updateSingleCount :: "string \<Rightarrow> number \<Rightarrow> app_state \<Rightarrow> app_state" where
  "updateSingleCount pid delta s =
     s\<lparr>currentCounts :=
         map (\<lambda>item. if productId item = pid
                      then item\<lparr>singleCount := math_max (Num 0) (num_add (singleCount item) delta)\<rparr>
                      else item)
             (currentCounts s)\<rparr>"

definition updatePackageCount :: "string \<Rightarrow> number \<Rightarrow> app_state \<Rightarrow> app_state" where
  "updatePackageCount pid delta s =
     s\<lparr>currentCounts :=
         map (\<lambda>item. if productId item = pid
                      then item\<lparr>packageCount := math_max (Num 0) (num_add (packageCount item) delta)\<rparr>
                      else item)
             (currentCounts s)\<rparr>"

definition openNumberDialogFor :: "string \<Rightarrow> field \<Rightarrow> sign \<Rightarrow> app_state \<Rightarrow> app_state" where
  "openNumberDialogFor pid fld sg s =
     s\<lparr>numberDialogProduct :=
         Some \<lparr>dialog_productId = pid, dialog_field = fld, dialog_sign = sg\<rparr>,
       numberDialogValue := [],
       numberDialogOpen := True\<rparr>"

text \<open>The input of the dialog: \<open>e.target.value.replace(/[^\d-]/g, "")\<close>.\<close>

definition numberDialogInput :: "string \<Rightarrow> app_state \<Rightarrow> app_state" where
  "numberDialogInput v s =
     s\<lparr>numberDialogValue := filter (\<lambda>c. is_digit c \<or> c = CHR ''-'') v\<rparr>"

definition handleNumberDialogSubmit :: "app_state \<Rightarrow> app_state" where
  "handleNumberDialogSubmit s =
     (case numberDialogProduct s of
        None \<Rightarrow> s
      | Some dp \<Rightarrow>
          (let n = parseInt10 (if numberDialogValue s = [] then ''0'' else numberDialogValue s)
           in if isNaN n \<or> n = Num 0 then s\<lparr>numberDialogOpen := False\<rparr>
              else (let delta = num_mul (sign_number (dialog_sign dp)) n
                    in (if dialog_field dp = Single
                        then updateSingleCount (dialog_productId dp) delta s
                        else updatePackageCount (dialog_productId dp) delta s)
                       \<lparr>numberDialogOpen := False\<rparr>)))"

text \<open>The pointer handlers of a count button; the last argument is \<open>Date.now()\<close>.\<close>

definition handleCountButtonDown :: "string \<Rightarrow> field \<Rightarrow> sign \<Rightarrow> nat \<Rightarrow> app_state \<Rightarrow> app_state" where
  "handleCountButtonDown pid fld sg now s = s\<lparr>longPressStart := Some now\<rparr>"

definition handleCountButtonUp :: "string \<Rightarrow> field \<Rightarrow> sign \<Rightarrow> nat \<Rightarrow> app_state \<Rightarrow> app_state" where
  "handleCountButtonUp pid fld sg now s =
     (case longPressStart s of
        None \<Rightarrow> s
      | Some start \<Rightarrow>
          if start = 0 then s
          else (let duration = int now - int start;
                    s1 = s\<lparr>longPressStart := None\<rparr>
                in if 600 \<le> duration then openNumberDialogFor pid fld sg s1
                   else if fld = Single then updateSingleCount pid (sign_number sg) s1
                   else updatePackageCount pid (sign_number sg) s1))"

text \<open>A count item as an item of a saved count: every field is there.\<close>

definition stored_item :: "CountItem \<Rightarrow> StoredItem" where
  "stored_item c =
     \<lparr> stored_productId = Some (productId c), stored_productName = Some (productName c),
       stored_packagingSize = Some (packagingSize c),
       stored_packageCount = Some (packageCount c),
       stored_singleCount = Some (singleCount c), stored_count = None \<rparr>"



text \<open>\<open>submitCount\<close>; the arguments are \<open>Date.now()\<close> and
  \<open>new Date().toISOString()\<close>.\<close>

definition submitCount :: "nat \<Rightarrow> string \<Rightarrow> app_state \<Rightarrow> app_state" where
  "submitCount now stamp s =
     (case currentForm s of
        None \<Rightarrow> s
      | Some tmpl \<Rightarrow>
          s\<lparr>savedCounts :=
              \<lparr>saved_id = show_nat now, formName = template_name tmpl, timestamp = stamp,
                items = map stored_item (currentCounts s)\<rparr> # savedCounts s,
            successMessage := ''Count submitted successfully!'',
            view := Start,
            currentForm := None,
            currentCounts := []\<rparr>)"

text \<open>The Cancel button of the count screen.\<close>

definition cancelCounting :: "app_state \<Rightarrow> app_state" where
  "cancelCounting s = s\<lparr>currentForm := None, currentCounts := []\<rparr>"

section \<open>Export\<close>








section \<open>localStorage\<close>

text \<open>
  The three keys of \<open>localStorage\<close> the component uses. A key is absent, or holds text
  that \<open>JSON.parse\<close> rejects, or holds the value that \<open>JSON.stringify\<close> was given.
  The round trip through JSON text is taken to give the value back, as it does for
  strings, finite numbers and missing fields (JSON has no \<open>NaN\<close> and no infinity).
\<close>

datatype 'a stored = Absent | Malformed | Stored 'a

record session =
  form :: FormTemplate
  counts :: "CountItem list"

record storage =
  templates_key :: "FormTemplate list stored"
  counts_key :: "SavedCount list stored"
  session_key :: "session stored"

subsection \<open>Migration of saved counts\<close>

text \<open>
  The function mapped over the items of every saved count by the load effect. An item
  that has both \<open>packageCount\<close> and \<open>singleCount\<close> is copied. Any other item is
  rebuilt from \<open>packagingSize || 1\<close> and \<open>Number(count ?? 0)\<close>; the new object has
  the five fields of a count item and no others.
\<close>

definition legacy_packagingSize :: "StoredItem \<Rightarrow> number" where
  "legacy_packagingSize it =
     (case stored_packagingSize it of
        None \<Rightarrow> Num 1
      | Some n \<Rightarrow> if truthy n then n else Num 1)"

definition legacy_total :: "StoredItem \<Rightarrow> number" where
  "legacy_total it = (case stored_count it of None \<Rightarrow> Num 0 | Some n \<Rightarrow> n)"

definition migrate_item :: "StoredItem \<Rightarrow> StoredItem" where
  "migrate_item it =
     (if stored_packageCount it \<noteq> None \<and> stored_singleCount it \<noteq> None then it
      else (let packagingSize = legacy_packagingSize it;
                total = legacy_total it;
                packageCount = math_floor (num_div total packagingSize);
                singleCount = num_rem total packagingSize
            in \<lparr> stored_productId = stored_productId it,
                 stored_productName = stored_productName it,
                 stored_packagingSize = Some packagingSize,
                 stored_packageCount = Some packageCount,
                 stored_singleCount = Some singleCount,
                 stored_count = None \<rparr>))"

definition migrateLegacy :: "SavedCount list \<Rightarrow> SavedCount list" where
  "migrateLegacy parsed = map (\<lambda>sc. sc\<lparr>items := map migrate_item (items sc)\<rparr>) parsed"

subsection \<open>The effects\<close>

text \<open>
  The load effect of the first commit. \<open>JSON.parse\<close> of the templates is not guarded:
  malformed text there throws out of the effect. Malformed saved counts reset the
  archive, a malformed session is removed.
\<close>

definition load_effect :: "storage \<Rightarrow> app_state \<Rightarrow> error + (app_state \<times> storage)" where
  "load_effect st s =
     (case templates_key st of
        Malformed \<Rightarrow> Inl (Error ''SyntaxError'')
      | _ \<Rightarrow>
        (let s1 = (case templates_key st of Stored ts \<Rightarrow> s\<lparr>templates := ts\<rparr> | _ \<Rightarrow> s);
             s2 = (case counts_key st of
                     Absent \<Rightarrow> s1
                   | Malformed \<Rightarrow> s1\<lparr>savedCounts := []\<rparr>
                   | Stored parsed \<Rightarrow> s1\<lparr>savedCounts := migrateLegacy parsed\<rparr>)
         in if sessionRecovered s2 then Inr (s2, st)
            else (case session_key st of
                    Absent \<Rightarrow> Inr (s2, st)
                  | Malformed \<Rightarrow> Inr (s2, st\<lparr>session_key := Absent\<rparr>)
                  | Stored se \<Rightarrow>
                      Inr (s2\<lparr>currentForm := Some (form se), currentCounts := counts se,
                              resumeSessionDialogOpen := True, sessionRecovered := True\<rparr>,
                           st))))"

definition save_templates :: "app_state \<Rightarrow> storage \<Rightarrow> storage" where
  "save_templates s st = st\<lparr>templates_key := Stored (templates s)\<rparr>"

definition save_counts :: "app_state \<Rightarrow> storage \<Rightarrow> storage" where
  "save_counts s st = st\<lparr>counts_key := Stored (savedCounts s)\<rparr>"

definition save_session :: "app_state \<Rightarrow> storage \<Rightarrow> storage" where
  "save_session s st =
     (case currentForm s of
        None \<Rightarrow> st\<lparr>session_key := Absent\<rparr>
      | Some f \<Rightarrow>
          if currentCounts s \<noteq> []
          then st\<lparr>session_key := Stored \<lparr>form = f, counts = currentCounts s\<rparr>\<rparr>
          else st\<lparr>session_key := Absent\<rparr>)"

text \<open>
  The three saving effects after a render from state \<open>old\<close> to state \<open>new\<close>: an
  effect runs when one of its dependencies changed. React compares the dependencies by
  identity, so it also runs an effect when a setter was given a new array with the old
  contents; that run writes what the key already holds.
\<close>

definition run_effects :: "app_state \<Rightarrow> app_state \<Rightarrow> storage \<Rightarrow> storage" where
  "run_effects old new st =
     (let st1 = (if templates new \<noteq> templates old then save_templates new st else st);
          st2 = (if savedCounts new \<noteq> savedCounts old then save_counts new st1 else st1)
      in if currentForm new \<noteq> currentForm old \<or> currentCounts new \<noteq> currentCounts old
         then save_session new st2 else st2)"

text \<open>
  Mounting the component: the first commit runs the load effect and then the three
  saving effects on the initial state; the state the load effect set is rendered next.
\<close>

definition mount :: "storage \<Rightarrow> error + (app_state \<times> storage)" where
  "mount st =
     (case load_effect st initial_state of
        Inl e \<Rightarrow> Inl e
      | Inr (s, st1) \<Rightarrow>
          Inr (s, run_effects initial_state s
                    (save_session initial_state
                       (save_counts initial_state (save_templates initial_state st1)))))"

definition handleResumeSession :: "bool \<Rightarrow> app_state \<times> storage \<Rightarrow> app_state \<times> storage" where
  "handleResumeSession resume x =
     (case x of (s, st) \<Rightarrow>
        if resume then (s\<lparr>resumeSessionDialogOpen := False, view := Count\<rparr>, st)
        else (s\<lparr>resumeSessionDialogOpen := False, currentForm := None, currentCounts := [],
                view := Start\<rparr>,
              st\<lparr>session_key := Absent\<rparr>))"

section \<open>The component as a state machine\<close>

text \<open>
  One event for each handler of the component, with what the handler reads from the
  outside (the clock, a chosen file, the answer to a prompt) as arguments. The handlers
  do not test which screen is shown, and neither does the model.
\<close>

datatype event =
    Mount
  | SetView View
  | GoCount
  | FileImport "(string \<times> string) option" nat string
  | SuccessTimeout
  | AddProduct "string option" "string option" "string option" "string option"
  | RemoveNewProduct nat
  | SetNewTemplateName string
  | CancelCreateTemplate
  | SaveTemplate nat string
  | DeleteTemplate string bool
  | SelectTemplate string
  | StartCounting
  | ButtonDown string field sign nat
  | ButtonUp string field sign nat
  | DialogInput string
  | DialogCancel
  | DialogSubmit
  | CancelCounting
  | SubmitCount nat string
  | ResumeSession bool
  | DeleteSavedCount string bool

text \<open>The handler of an event, on the state alone. Mounting and the answer to the
  recovery prompt also touch the storage; \<open>step\<close> below handles them.\<close>

fun handler :: "event \<Rightarrow> app_state \<Rightarrow> app_state" where
  "handler (SetView v) s = s\<lparr>view := v\<rparr>"
| "handler GoCount s = (if templates s = [] then s else s\<lparr>view := Count\<rparr>)"
| "handler (FileImport file now stamp) s = handleFileImport file now stamp s"
| "handler SuccessTimeout s = s\<lparr>successMessage := []\<rparr>"
| "handler (AddProduct a b c d) s = addProductToTemplate a b c d s"
| "handler (RemoveNewProduct idx) s =
     s\<lparr>newTemplateProducts := take idx (newTemplateProducts s) @ drop (Suc idx) (newTemplateProducts s)\<rparr>"
| "handler (SetNewTemplateName v) s = s\<lparr>newTemplateName := v\<rparr>"
| "handler CancelCreateTemplate s =
     s\<lparr>newTemplateName := [], newTemplateProducts := [], view := Start\<rparr>"
| "handler (SaveTemplate now stamp) s = saveTemplate now stamp s"
| "handler (DeleteTemplate tid confirmed) s = deleteTemplate tid confirmed s"
| "handler (SelectTemplate tid) s = s\<lparr>selectedTemplateId := tid\<rparr>"
| "handler StartCounting s = startCounting s"
| "handler (ButtonDown pid fld sg now) s = handleCountButtonDown pid fld sg now s"
| "handler (ButtonUp pid fld sg now) s = handleCountButtonUp pid fld sg now s"
| "handler (DialogInput v) s = numberDialogInput v s"
| "handler DialogCancel s = s\<lparr>numberDialogOpen := False\<rparr>"
| "handler DialogSubmit s = handleNumberDialogSubmit s"
| "handler CancelCounting s = cancelCounting s"
| "handler (SubmitCount now stamp) s = submitCount now stamp s"
| "handler (DeleteSavedCount cid confirmed) s = deleteSavedCount cid confirmed s"
| "handler Mount s = s"
| "handler (ResumeSession resume) s = s"

text \<open>
  One step of the component: the handler runs, the new state is rendered and the effects
  run. \<open>Inl\<close> is an exception that no handler catches; only mounting can give one.
\<close>

definition step :: "event \<Rightarrow> app_state \<times> storage \<Rightarrow> error + (app_state \<times> storage)" where
  "step ev x =
     (case x of (s, st) \<Rightarrow>
        (case ev of
           Mount \<Rightarrow> mount st
         | ResumeSession resume \<Rightarrow>
             (case handleResumeSession resume (s, st) of
                (s', st') \<Rightarrow> Inr (s', run_effects s s' st'))
         | _ \<Rightarrow> Inr (handler ev s, run_effects s (handler ev s) st)))"

text \<open>
  The states the component can be in: it is mounted on a storage in which no session
  was saved (templates and saved counts, also of the older schema, may be there), and
  from then on it handles events, a reload (\<open>Mount\<close>) among them.
\<close>

inductive reachable :: "app_state \<times> storage \<Rightarrow> bool" where
  first_mount: "session_key st = Absent \<Longrightarrow> mount st = Inr x \<Longrightarrow> reachable x"
| after_step: "reachable x \<Longrightarrow> step ev x = Inr y \<Longrightarrow> reachable y"

text \<open>A run of the component: the events are handled one after the other, and an
  uncaught exception ends the run.\<close>

fun run :: "event list \<Rightarrow> app_state \<times> storage \<Rightarrow> error + (app_state \<times> storage)" where
  "run [] x = Inr x"
| "run (ev # evs) x = (case step ev x of Inl e \<Rightarrow> Inl e | Inr y \<Rightarrow> run evs y)"

text \<open>The storage of a first launch: no key is there.\<close>

definition empty_storage :: storage where
  "empty_storage = \<lparr>templates_key = Absent, counts_key = Absent, session_key = Absent\<rparr>"

section \<open>Legacy migration of the archive\<close>

subsection \<open>Division and remainder on whole numbers\<close>





subsection \<open>What the migration gives\<close>







lemma migrate_item_has_counts:
  "stored_packageCount (migrate_item it) \<noteq> None \<and> stored_singleCount (migrate_item it) \<noteq> None"
  by (auto simp: migrate_item_def Let_def)

lemma migrate_item_idem: "migrate_item (migrate_item it) = migrate_item it"
  using migrate_item_has_counts [of it] by (simp add: migrate_item_def [of "migrate_item it"])

text \<open>
  C4. Migrating twice is migrating once, and an archive whose items all have both
  \<open>packageCount\<close> and \<open>singleCount\<close> comes back unchanged.
\<close>

theorem migrateLegacy_idempotent:
  "migrateLegacy (migrateLegacy x) = migrateLegacy x
   \<and> ((\<forall>sc \<in> set x. \<forall>it \<in> set (items sc).
          stored_packageCount it \<noteq> None \<and> stored_singleCount it \<noteq> None)
        \<longrightarrow> migrateLegacy x = x)"
proof
  show "migrateLegacy (migrateLegacy x) = migrateLegacy x"
    by (simp add: migrateLegacy_def migrate_item_idem o_def)
next
  show "(\<forall>sc \<in> set x. \<forall>it \<in> set (items sc).
          stored_packageCount it \<noteq> None \<and> stored_singleCount it \<noteq> None)
        \<longrightarrow> migrateLegacy x = x"
  proof
    assume a: "\<forall>sc \<in> set x. \<forall>it \<in> set (items sc).
          stored_packageCount it \<noteq> None \<and> stored_singleCount it \<noteq> None"
    have "map (\<lambda>sc. sc\<lparr>items := map migrate_item (items sc)\<rparr>) x = map (\<lambda>sc. sc) x"
    proof (rule map_cong [OF refl])
      fix sc assume sc: "sc \<in> set x"
      have "map migrate_item (items sc) = map (\<lambda>it. it) (items sc)"
        by (rule map_cong [OF refl]) (use a sc in \<open>simp add: migrate_item_def\<close>)
      then show "sc\<lparr>items := map migrate_item (items sc)\<rparr> = sc" by simp
    qed
    then show "migrateLegacy x = x" by (simp add: migrateLegacy_def)
  qed
qed

definition migrated_archive :: "SavedCount list" where
  "migrated_archive =
     [\<lparr> saved_id = ''1700000000000'', formName = ''Shelf'', timestamp = ''2023-11-14T22:13:20.000Z'',
        items = [\<lparr> stored_productId = Some ''SKU001'', stored_productName = Some ''Widget A'',
                   stored_packagingSize = Some (Num 12), stored_packageCount = Some (Num 2),
                   stored_singleCount = Some (Num 5), stored_count = None \<rparr>] \<rparr>]"

text \<open>C4 at an archive of one saved count in the current schema.\<close>

theorem migrateLegacy_idempotent_witness:
  "migrateLegacy (migrateLegacy migrated_archive) = migrateLegacy migrated_archive
   \<and> migrateLegacy migrated_archive = migrated_archive"
  using migrateLegacy_idempotent [of migrated_archive]
  by (simp add: migrated_archive_def)




section \<open>The numeric-entry dialog\<close>

subsection \<open>Reading back a printed number\<close>




lemma digit_chars:
  "char_of (48 :: nat) = CHR ''0''" "char_of (49 :: nat) = CHR ''1''"
  "char_of (50 :: nat) = CHR ''2''" "char_of (51 :: nat) = CHR ''3''"
  "char_of (52 :: nat) = CHR ''4''" "char_of (53 :: nat) = CHR ''5''"
  "char_of (54 :: nat) = CHR ''6''" "char_of (55 :: nat) = CHR ''7''"
  "char_of (56 :: nat) = CHR ''8''" "char_of (57 :: nat) = CHR ''9''"
  by code_simp+













subsection \<open>Submitting the dialog\<close>



text \<open>A session on one product with seven singles counted.\<close>

definition counting_seven :: app_state where
  "counting_seven = initial_state
     \<lparr> view := Count,
       currentForm := Some \<lparr>template_id = ''1700000000000'', template_name = ''Shelf'',
         products = [\<lparr>product_id = ''SKU001'', product_name = ''Widget A'',
                      product_packagingSize = Num 12, sortIndex = None\<rparr>],
         createdAt = ''2023-11-14T22:13:20.000Z''\<rparr>,
       currentCounts := [\<lparr>productId = ''SKU001'', productName = ''Widget A'',
                          packagingSize = Num 12, packageCount = Num 0, singleCount = Num 7\<rparr>] \<rparr>"



section \<open>Submitting a count\<close>

lemma run_effects_same: "run_effects s s st = st"
  by (simp add: run_effects_def)

text \<open>
  C2, amended. With no template selected \<open>submitCount\<close> returns at once: the state and
  the storage stay as they are and no exception leaves the handler (the step is an
  \<open>Inr\<close>). With a template selected it puts a new saved count in front of the archive,
  with the clock as its id and timestamp, the template's name and a copy of every count
  item, and clears the template and the count list; after the effects the archive is
  stored and no session is.
\<close>

theorem submitCount_effect:
  "(currentForm s = None \<longrightarrow>
      submitCount now stamp s = s \<and> step (SubmitCount now stamp) (s, st) = Inr (s, st))
   \<and> (currentForm s = Some f \<longrightarrow>
      submitCount now stamp s =
        s\<lparr>savedCounts :=
            \<lparr>saved_id = show_nat now, formName = template_name f, timestamp = stamp,
              items = map stored_item (currentCounts s)\<rparr> # savedCounts s,
          successMessage := ''Count submitted successfully!'',
          view := Start, currentForm := None, currentCounts := []\<rparr>
      \<and> (\<exists>st'. step (SubmitCount now stamp) (s, st) = Inr (submitCount now stamp s, st')
             \<and> session_key st' = Absent
             \<and> counts_key st' = Stored (savedCounts (submitCount now stamp s))
             \<and> templates_key st' = templates_key st))"
proof (intro conjI impI)
  assume n: "currentForm s = None"
  then show a: "submitCount now stamp s = s" by (simp add: submitCount_def)
  show "step (SubmitCount now stamp) (s, st) = Inr (s, st)"
    by (simp add: step_def a run_effects_same)
next
  assume f: "currentForm s = Some f"
  then show b: "submitCount now stamp s =
        s\<lparr>savedCounts :=
            \<lparr>saved_id = show_nat now, formName = template_name f, timestamp = stamp,
              items = map stored_item (currentCounts s)\<rparr> # savedCounts s,
          successMessage := ''Count submitted successfully!'',
          view := Start, currentForm := None, currentCounts := []\<rparr>"
    by (simp add: submitCount_def)
  show "\<exists>st'. step (SubmitCount now stamp) (s, st) = Inr (submitCount now stamp s, st')
             \<and> session_key st' = Absent
             \<and> counts_key st' = Stored (savedCounts (submitCount now stamp s))
             \<and> templates_key st' = templates_key st"
    using f by (simp add: step_def b run_effects_def save_counts_def save_session_def)
qed

text \<open>The storage after the component was mounted for the first time.\<close>

definition mounted_storage :: storage where
  "mounted_storage = \<lparr>templates_key = Stored [], counts_key = Stored [], session_key = Absent\<rparr>"

text \<open>
  C2 as stated fails: on the state after the first mount, where no template is
  selected, submitting is a step that ends normally and changes nothing; no error is
  raised.
\<close>

theorem submitCount_without_template:
  "currentForm initial_state = None
   \<and> step (SubmitCount 1700000000000 ''2023-11-14T22:13:20.000Z'') (initial_state, mounted_storage)
       = Inr (initial_state, mounted_storage)"
  by (simp add: step_def submitCount_def initial_state_def run_effects_def)


text \<open>C2, amended, on the initial state and on the session with seven singles.\<close>

theorem submitCount_effect_witness:
  "submitCount 1700000000500 ''2023-11-14T22:13:20.500Z'' initial_state = initial_state
   \<and> savedCounts (submitCount 1700000000500 ''2023-11-14T22:13:20.500Z'' counting_seven) =
       [\<lparr>saved_id = ''1700000000500'', formName = ''Shelf'',
          timestamp = ''2023-11-14T22:13:20.500Z'',
          items = [\<lparr>stored_productId = Some ''SKU001'', stored_productName = Some ''Widget A'',
                    stored_packagingSize = Some (Num 12), stored_packageCount = Some (Num 0),
                    stored_singleCount = Some (Num 7), stored_count = None\<rparr>]\<rparr>]
   \<and> currentForm (submitCount 1700000000500 ''2023-11-14T22:13:20.500Z'' counting_seven) = None
   \<and> currentCounts (submitCount 1700000000500 ''2023-11-14T22:13:20.500Z'' counting_seven) = []"
proof -
  let ?f = "\<lparr>template_id = ''1700000000000'', template_name = ''Shelf'',
         products = [\<lparr>product_id = ''SKU001'', product_name = ''Widget A'',
                      product_packagingSize = Num 12, sortIndex = None\<rparr>],
         createdAt = ''2023-11-14T22:13:20.000Z''\<rparr>"
  have n: "show_nat 1700000000500 = ''1700000000500''"
    by (simp add: show_nat.simps digit_chars)
  have i: "currentForm initial_state = None" by (simp add: initial_state_def)
  have c: "currentForm counting_seven = Some ?f" by (simp add: counting_seven_def)
  from submitCount_effect [of initial_state 1700000000500 "''2023-11-14T22:13:20.500Z''"
      mounted_storage ?f] i
  have a: "submitCount 1700000000500 ''2023-11-14T22:13:20.500Z'' initial_state = initial_state"
    by simp
  from submitCount_effect [of counting_seven 1700000000500 "''2023-11-14T22:13:20.500Z''"
      mounted_storage ?f] c
  have b: "submitCount 1700000000500 ''2023-11-14T22:13:20.500Z'' counting_seven =
        counting_seven\<lparr>savedCounts :=
            \<lparr>saved_id = show_nat 1700000000500, formName = template_name ?f,
              timestamp = ''2023-11-14T22:13:20.500Z'',
              items = map stored_item (currentCounts counting_seven)\<rparr> # savedCounts counting_seven,
          successMessage := ''Count submitted successfully!'',
          view := Start, currentForm := None, currentCounts := []\<rparr>"
    by simp
  show ?thesis
    by (simp only: a b) (simp add: n counting_seven_def initial_state_def stored_item_def)
qed

section \<open>Import errors\<close>














section \<open>The order of a template's items\<close>















subsection \<open>What \<open>parseCSV\<close> returns\<close>










section \<open>Invariants of the reachable states\<close>

text \<open>What the session effect leaves under the session key for a state.\<close>

definition session_saved :: "app_state \<Rightarrow> session stored" where
  "session_saved s =
     (case currentForm s of
        None \<Rightarrow> Absent
      | Some f \<Rightarrow> if currentCounts s \<noteq> [] then Stored \<lparr>form = f, counts = currentCounts s\<rparr>
                  else Absent)"

text \<open>A count that is a finite number and not negative.\<close>

definition count_ok :: "number \<Rightarrow> bool" where
  "count_ok n = (case n of Num a \<Rightarrow> 0 \<le> a | _ \<Rightarrow> False)"

definition counts_ok :: "CountItem list \<Rightarrow> bool" where
  "counts_ok cs = (\<forall>c \<in> set cs. count_ok (packageCount c) \<and> count_ok (singleCount c))"

subsection \<open>The handlers keep the counts\<close>

lemma count_ok_clamp: "count_ok c \<Longrightarrow> count_ok (math_max (Num 0) (num_add c (Num d)))"
  by (cases c) (simp_all add: count_ok_def)

lemma counts_ok_updateSingleCount:
  "counts_ok (currentCounts s) \<Longrightarrow> counts_ok (currentCounts (updateSingleCount pid (Num d) s))"
  by (auto simp: counts_ok_def updateSingleCount_def count_ok_clamp)

lemma counts_ok_updatePackageCount:
  "counts_ok (currentCounts s) \<Longrightarrow> counts_ok (currentCounts (updatePackageCount pid (Num d) s))"
  by (auto simp: counts_ok_def updatePackageCount_def count_ok_clamp)

lemma sign_number_Num: "\<exists>d. sign_number sg = Num d"
  by (cases sg) simp_all

lemma parseInt10_cases: "parseInt10 v = NaN \<or> (\<exists>r. parseInt10 v = Num r)"
  by (simp add: parseInt10_def apply_sign_def Let_def split: prod.splits)

lemma counts_ok_startCounting:
  "counts_ok (currentCounts s) \<Longrightarrow> counts_ok (currentCounts (startCounting s))"
  by (auto simp: startCounting_def counts_ok_def count_ok_def split: option.splits)

lemma counts_ok_handleCountButtonUp:
  "counts_ok (currentCounts s) \<Longrightarrow> counts_ok (currentCounts (handleCountButtonUp pid fld sg now s))"
proof -
  assume a: "counts_ok (currentCounts s)"
  obtain d where d: "sign_number sg = Num d" using sign_number_Num by blast
  have b: "counts_ok (currentCounts (s\<lparr>longPressStart := None\<rparr>))" using a by simp
  show ?thesis
    using a counts_ok_updateSingleCount [OF b, of pid d] counts_ok_updatePackageCount [OF b, of pid d]
    by (simp add: handleCountButtonUp_def d openNumberDialogFor_def Let_def split: option.splits)
qed

lemma counts_ok_handleNumberDialogSubmit:
  "counts_ok (currentCounts s) \<Longrightarrow> counts_ok (currentCounts (handleNumberDialogSubmit s))"
proof -
  assume a: "counts_ok (currentCounts s)"
  let ?v = "if numberDialogValue s = [] then ''0'' else numberDialogValue s"
  show ?thesis
  proof (cases "numberDialogProduct s")
    case None
    then show ?thesis using a by (simp add: handleNumberDialogSubmit_def)
  next
    case (Some dp)
    obtain d where d: "sign_number (dialog_sign dp) = Num d" using sign_number_Num by blast
    from parseInt10_cases [of ?v] show ?thesis
    proof
      assume "parseInt10 ?v = NaN"
      then show ?thesis using a Some by (simp add: handleNumberDialogSubmit_def Let_def)
    next
      assume "\<exists>r. parseInt10 ?v = Num r"
      then obtain r where r: "parseInt10 ?v = Num r" by blast
      have m: "num_mul (Num d) (Num r) = Num (d * r)" by (simp add: num_mul_def)
      show ?thesis
        using a Some counts_ok_updateSingleCount [OF a, of "dialog_productId dp" "d * r"]
          counts_ok_updatePackageCount [OF a, of "dialog_productId dp" "d * r"]
        by (simp add: handleNumberDialogSubmit_def Let_def r d m)
    qed
  qed
qed

lemma currentCounts_handleFileImport:
  "currentCounts (handleFileImport file now stamp s) = currentCounts s"
  "currentForm (handleFileImport file now stamp s) = currentForm s"
  by (simp_all add: handleFileImport_def split: option.splits prod.splits sum.splits error.splits)

lemma currentCounts_addProductToTemplate:
  "currentCounts (addProductToTemplate a b c d s) = currentCounts s"
  "currentForm (addProductToTemplate a b c d s) = currentForm s"
  by (simp_all add: addProductToTemplate_def split: option.splits)

lemma currentCounts_saveTemplate:
  "currentCounts (saveTemplate now stamp s) = currentCounts s"
  "currentForm (saveTemplate now stamp s) = currentForm s"
  by (simp_all add: saveTemplate_def)

lemma counts_ok_handler:
  "counts_ok (currentCounts s) \<Longrightarrow> counts_ok (currentCounts (handler ev s))"
proof (cases ev)
  case (ButtonUp pid fld sg now)
  assume "counts_ok (currentCounts s)"
  then show ?thesis using ButtonUp by (simp add: counts_ok_handleCountButtonUp)
next
  case DialogSubmit
  assume "counts_ok (currentCounts s)"
  then show ?thesis using DialogSubmit by (simp add: counts_ok_handleNumberDialogSubmit)
next
  case StartCounting
  assume "counts_ok (currentCounts s)"
  then show ?thesis using StartCounting by (simp add: counts_ok_startCounting)
qed (simp_all add: currentCounts_handleFileImport currentCounts_addProductToTemplate
      currentCounts_saveTemplate deleteTemplate_def deleteSavedCount_def
      handleCountButtonDown_def numberDialogInput_def cancelCounting_def submitCount_def
      counts_ok_def split: option.splits)

subsection \<open>The effects keep the session key in step\<close>

lemma session_key_run_effects:
  "session_key (run_effects old new st) =
     (if currentForm new \<noteq> currentForm old \<or> currentCounts new \<noteq> currentCounts old
      then session_saved new else session_key st)"
  by (simp add: run_effects_def save_templates_def save_counts_def save_session_def
      session_saved_def Let_def split: option.splits)

lemma session_saved_cong:
  "currentForm new = currentForm old \<Longrightarrow> currentCounts new = currentCounts old \<Longrightarrow>
   session_saved new = session_saved old"
  by (cases "currentForm old") (simp_all add: session_saved_def)

lemma run_effects_keeps_sync:
  "session_key st = session_saved old \<Longrightarrow> session_key (run_effects old new st) = session_saved new"
  by (auto simp: session_key_run_effects intro: session_saved_cong [symmetric])

lemma mount_state:
  assumes "mount st = Inr (s, st')"
  shows "session_key st' = session_saved s"
    and "currentCounts s = (case session_key st of Stored se \<Rightarrow> counts se | _ \<Rightarrow> [])"
proof -
  obtain st1 where l: "load_effect st initial_state = Inr (s, st1)"
    and e: "st' = run_effects initial_state s
                    (save_session initial_state
                       (save_counts initial_state (save_templates initial_state st1)))"
    using assms by (auto simp: mount_def split: sum.splits prod.splits)
  have "session_key (save_session initial_state
                       (save_counts initial_state (save_templates initial_state st1)))
        = session_saved initial_state"
    by (simp add: save_session_def session_saved_def initial_state_def)
  then show "session_key st' = session_saved s"
    unfolding e by (rule run_effects_keeps_sync)
  show "currentCounts s = (case session_key st of Stored se \<Rightarrow> counts se | _ \<Rightarrow> [])"
    using l by (auto simp: load_effect_def initial_state_def Let_def
        split: stored.splits if_splits)
qed

lemma step_invariant:
  assumes "step ev (s, st) = Inr (s', st')"
    and "session_key st = session_saved s" and "counts_ok (currentCounts s)"
  shows "session_key st' = session_saved s' \<and> counts_ok (currentCounts s')"
proof (cases ev)
  case Mount
  then have m: "mount st = Inr (s', st')" using assms(1) by (simp add: step_def)
  have "counts_ok (currentCounts s')"
    using mount_state(2) [OF m] assms(2,3)
    by (auto simp: session_saved_def counts_ok_def split: stored.splits option.splits if_splits)
  with mount_state(1) [OF m] show ?thesis by simp
next
  case (ResumeSession resume)
  show ?thesis
  proof (cases resume)
    case True
    with ResumeSession assms(1)
    have e: "s' = s\<lparr>resumeSessionDialogOpen := False, view := Count\<rparr>"
      "st' = run_effects s s' st"
      by (auto simp: step_def handleResumeSession_def)
    show ?thesis using assms(2,3) by (simp add: e(2) run_effects_keeps_sync) (simp add: e(1))
  next
    case False
    with ResumeSession assms(1)
    have e: "s' = s\<lparr>resumeSessionDialogOpen := False, currentForm := None,
                      currentCounts := [], view := Start\<rparr>"
      "st' = run_effects s s' (st\<lparr>session_key := Absent\<rparr>)"
      by (auto simp: step_def handleResumeSession_def)
    have "session_saved s' = Absent" by (simp add: e(1) session_saved_def)
    then show ?thesis
      by (simp add: e(2) session_key_run_effects) (simp add: e(1) counts_ok_def)
  qed
qed (use assms in \<open>auto simp: step_def run_effects_keeps_sync counts_ok_handler
         simp del: handler.simps\<close>)

lemma reachable_invariant:
  "reachable x \<Longrightarrow> session_key (snd x) = session_saved (fst x) \<and> counts_ok (currentCounts (fst x))"
proof (induction rule: reachable.induct)
  case (first_mount st x)
  obtain s st' where x: "x = (s, st')" by (cases x)
  from mount_state [OF first_mount(2) [unfolded x]] first_mount(1)
  show ?case by (simp add: x counts_ok_def)
next
  case (after_step x ev y)
  obtain s st where x: "x = (s, st)" by (cases x)
  obtain s' st' where y: "y = (s', st')" by (cases y)
  from step_invariant [of ev s st s' st'] after_step show ?case by (simp add: x y)
qed


subsection \<open>Runs\<close>

lemma reachable_run: "reachable x \<Longrightarrow> run evs x = Inr y \<Longrightarrow> reachable y"
proof (induction evs arbitrary: x)
  case Nil
  then show ?case by simp
next
  case (Cons ev evs)
  then obtain z where z: "step ev x = Inr z" "run evs z = Inr y"
    by (auto split: sum.splits)
  from Cons.prems(1) z(1) have "reachable z" by (rule after_step)
  then show ?case using z(2) by (rule Cons.IH)
qed

lemma mount_empty_storage: "mount empty_storage = Inr (initial_state, mounted_storage)"
  by (simp add: mount_def load_effect_def empty_storage_def mounted_storage_def initial_state_def
      run_effects_def save_session_def save_counts_def save_templates_def)

lemma reachable_mounted: "reachable (initial_state, mounted_storage)"
  by (rule first_mount [OF _ mount_empty_storage]) (simp add: empty_storage_def)







text \<open>
  C9. In every reachable state the session key holds the template and the count list
  when a template is selected and the list is not empty, and is absent otherwise. After
  a submit, an abandon (the Cancel button) or a discard of the recovered session, no
  template is selected and the key is absent.
\<close>

theorem session_persistence:
  "(reachable (s, st) \<longrightarrow>
      session_key st =
        (case currentForm s of
           None \<Rightarrow> Absent
         | Some f \<Rightarrow> if currentCounts s \<noteq> [] then Stored \<lparr>form = f, counts = currentCounts s\<rparr>
                     else Absent))
   \<and> (reachable (s, st)
        \<and> (ev = SubmitCount now stamp \<or> ev = CancelCounting \<or> ev = ResumeSession False)
        \<and> step ev (s, st) = Inr (s', st')
       \<longrightarrow> session_key st' = Absent \<and> currentForm s' = None)"
proof (intro conjI impI)
  assume "reachable (s, st)"
  from reachable_invariant [OF this]
  show "session_key st =
        (case currentForm s of
           None \<Rightarrow> Absent
         | Some f \<Rightarrow> if currentCounts s \<noteq> [] then Stored \<lparr>form = f, counts = currentCounts s\<rparr>
                     else Absent)"
    by (simp add: session_saved_def)
next
  assume a: "reachable (s, st)
        \<and> (ev = SubmitCount now stamp \<or> ev = CancelCounting \<or> ev = ResumeSession False)
        \<and> step ev (s, st) = Inr (s', st')"
  then have "reachable (s', st')" by (blast intro: after_step)
  from reachable_invariant [OF this] have k: "session_key st' = session_saved s'" by simp
  from a have n: "currentForm s' = None" if "currentForm s = None \<or> ev \<noteq> SubmitCount now stamp"
    using that
    by (auto simp: step_def submitCount_def cancelCounting_def handleResumeSession_def
        split: option.splits)
  from a have m: "currentForm s' = None" if "ev = SubmitCount now stamp"
    using that by (auto simp: step_def submitCount_def split: option.splits)
  from n m show "currentForm s' = None" by blast
  with k show "session_key st' = Absent" by (simp add: session_saved_def)
qed

text \<open>A run after the first mount that ends with the start of counting.\<close>

definition started_events :: "event list" where
  "started_events =
     [FileImport (Some (''shelf.csv'', ''SKU001,Widget A,12'')) 1000 ''1970-01-01T00:00:01.000Z'',
      SelectTemplate ''1000'', StartCounting]"

lemma started_events_run: "\<not> isl (run started_events (initial_state, mounted_storage))"
  by code_simp

lemma started_submit_step:
  "\<not> isl (step (SubmitCount 4000 ''1970-01-01T00:00:04.000Z'')
             (projr (run started_events (initial_state, mounted_storage))))"
  by code_simp

text \<open>C9 at that run: the session is stored after the start, and gone after the
  submit.\<close>

theorem session_persistence_witness:
  "session_key (snd (projr (run started_events (initial_state, mounted_storage))))
     = Stored \<lparr>form = \<lparr>template_id = ''1000'', template_name = ''shelf'',
                        products = [\<lparr>product_id = ''SKU001'', product_name = ''Widget A'',
                                     product_packagingSize = Num 12, sortIndex = None\<rparr>],
                        createdAt = ''1970-01-01T00:00:01.000Z''\<rparr>,
               counts = [\<lparr>productId = ''SKU001'', productName = ''Widget A'',
                          packagingSize = Num 12, packageCount = Num 0, singleCount = Num 0\<rparr>]\<rparr>
   \<and> session_key (snd (projr (step (SubmitCount 4000 ''1970-01-01T00:00:04.000Z'')
         (projr (run started_events (initial_state, mounted_storage)))))) = Absent"
proof -
  let ?x = "projr (run started_events (initial_state, mounted_storage))"
  let ?y = "projr (step (SubmitCount 4000 ''1970-01-01T00:00:04.000Z'') ?x)"
  have "run started_events (initial_state, mounted_storage) = Inr ?x"
    using started_events_run by simp
  with reachable_mounted have r: "reachable (fst ?x, snd ?x)" by (simp add: reachable_run)
  have s: "step (SubmitCount 4000 ''1970-01-01T00:00:04.000Z'') (fst ?x, snd ?x) = Inr (fst ?y, snd ?y)"
    using started_submit_step by simp
  have f: "currentForm (fst ?x) = Some \<lparr>template_id = ''1000'', template_name = ''shelf'',
                        products = [\<lparr>product_id = ''SKU001'', product_name = ''Widget A'',
                                     product_packagingSize = Num 12, sortIndex = None\<rparr>],
                        createdAt = ''1970-01-01T00:00:01.000Z''\<rparr>"
    "currentCounts (fst ?x) = [\<lparr>productId = ''SKU001'', productName = ''Widget A'',
                          packagingSize = Num 12, packageCount = Num 0, singleCount = Num 0\<rparr>]"
    by code_simp+
  from session_persistence [of "fst ?x" "snd ?x" "SubmitCount 4000 ''1970-01-01T00:00:04.000Z''"
      4000 "''1970-01-01T00:00:04.000Z''" "fst ?y" "snd ?y"] r s
  show ?thesis by (simp add: f)
qed

section \<open>From import to export\<close>











end
